theory Spec2Isabelle
  imports Main
begin

chapter \<open>humanlog: a human-readable handler for log/slog\<close>

text \<open>
  The development embeds the formatting handler of the repository: \<^verbatim>\<open>handler.go\<close>
  (\<^verbatim>\<open>Enabled\<close>, \<^verbatim>\<open>Handle\<close>, \<^verbatim>\<open>WithAttrs\<close>, \<^verbatim>\<open>WithGroup\<close>, \<^verbatim>\<open>formatLevel\<close>,
  \<^verbatim>\<open>appendAttrs\<close>, \<^verbatim>\<open>formatAttr\<close>, \<^verbatim>\<open>needsQuoting\<close>), its constructor \<^verbatim>\<open>NewHandler\<close> and
  its \<^verbatim>\<open>Options\<close>.  A Go string is a sequence of bytes, so it is a \<^typ>\<open>string\<close> here
  (a list of 8-bit characters); \<^verbatim>\<open>len\<close> is \<^const>\<open>length\<close> and \<^verbatim>\<open>s[:n]\<close> is
  \<^term>\<open>take n s\<close>.

  The handler calls into the Go standard library.  The pieces whose behaviour decides a
  property below are written out from the library's documented behaviour (UTF-8 rune
  counting behind the padding of \<^verbatim>\<open>fmt\<close>, \<^verbatim>\<open>strings.Join\<close>, the acceptance test of
  \<^verbatim>\<open>strconv.ParseFloat\<close>, the growth of a slice under \<^verbatim>\<open>append\<close>); the others
  (\<^verbatim>\<open>strconv.Quote\<close>, the formatting of times, durations and floats, the frame table of
  the runtime, the JSON encoder of \<^verbatim>\<open>slog\<close>, the sink behind an \<^verbatim>\<open>io.Writer\<close>) are
  parameters, collected in the record \<open>env\<close>.
\<close>

section \<open>Go strings and the standard library\<close>

subsection \<open>Bytes\<close>

definition byte :: "char \<Rightarrow> nat" where
  "byte c = of_char c"

text \<open>\<^verbatim>\<open>lower(c) = c | ('x' - 'X')\<close> of \<^verbatim>\<open>strconv\<close>: bit 5 of the byte is set.\<close>

fun lower :: "char \<Rightarrow> char" where
  "lower (Char b0 b1 b2 b3 b4 b5 b6 b7) = Char b0 b1 b2 b3 b4 True b6 b7"

definition isDigit :: "char \<Rightarrow> bool" where
  "isDigit c \<longleftrightarrow> byte CHR ''0'' \<le> byte c \<and> byte c \<le> byte CHR ''9''"

definition isHexLetter :: "char \<Rightarrow> bool" where
  "isHexLetter c \<longleftrightarrow> byte CHR ''a'' \<le> byte (lower c) \<and> byte (lower c) \<le> byte CHR ''f''"

subsection \<open>unicode/utf8: counting runes\<close>

text \<open>
  \<^verbatim>\<open>utf8.RuneCountInString\<close> walks the bytes.  A byte below \<^verbatim>\<open>0x80\<close> is one rune.  For
  a leading byte the table \<^verbatim>\<open>first\<close> gives the length of the encoding and the range
  accepted for the second byte; an invalid or short encoding counts its first byte as a
  rune of width one.
\<close>

definition utf8_first :: "nat \<Rightarrow> (nat \<times> nat \<times> nat) option" where
  "utf8_first b =
     (if 0xC2 \<le> b \<and> b \<le> 0xDF then Some (2, 0x80, 0xBF)
      else if b = 0xE0 then Some (3, 0xA0, 0xBF)
      else if 0xE1 \<le> b \<and> b \<le> 0xEC then Some (3, 0x80, 0xBF)
      else if b = 0xED then Some (3, 0x80, 0x9F)
      else if 0xEE \<le> b \<and> b \<le> 0xEF then Some (3, 0x80, 0xBF)
      else if b = 0xF0 then Some (4, 0x90, 0xBF)
      else if 0xF1 \<le> b \<and> b \<le> 0xF3 then Some (4, 0x80, 0xBF)
      else if b = 0xF4 then Some (4, 0x80, 0x8F)
      else None)"

definition runeSize :: "char \<Rightarrow> string \<Rightarrow> nat" where
  "runeSize c cs =
     (if byte c < 0x80 then 1
      else case utf8_first (byte c) of
        None \<Rightarrow> 1
      | Some (sz, lo, hi) \<Rightarrow>
          if 1 + length cs < sz then 1
          else if byte (cs ! 0) < lo \<or> hi < byte (cs ! 0) then 1
          else if sz = 2 then 2
          else if byte (cs ! 1) < 0x80 \<or> 0xBF < byte (cs ! 1) then 1
          else if sz = 3 then 3
          else if byte (cs ! 2) < 0x80 \<or> 0xBF < byte (cs ! 2) then 1
          else 4)"

fun RuneCountInString :: "string \<Rightarrow> nat" where
  "RuneCountInString [] = 0"
| "RuneCountInString (c # cs) = Suc (RuneCountInString (drop (runeSize c cs - 1) cs))"

text \<open>
  A \<^verbatim>\<open>for _, r := range s\<close> loop decodes the same encodings and yields the code points;
  an invalid or short encoding yields \<^verbatim>\<open>U+FFFD\<close> for its first byte.
\<close>

definition decodeRune :: "char \<Rightarrow> string \<Rightarrow> nat" where
  "decodeRune c cs =
     (if byte c < 0x80 then byte c
      else if runeSize c cs = 2 then byte c mod 32 * 64 + byte (cs ! 0) mod 64
      else if runeSize c cs = 3 then
        byte c mod 16 * 4096 + byte (cs ! 0) mod 64 * 64 + byte (cs ! 1) mod 64
      else if runeSize c cs = 4 then
        byte c mod 8 * 262144 + byte (cs ! 0) mod 64 * 4096 + byte (cs ! 1) mod 64 * 64
        + byte (cs ! 2) mod 64
      else 0xFFFD)"

fun runes :: "string \<Rightarrow> nat list" where
  "runes [] = []"
| "runes (c # cs) = decodeRune c cs # runes (drop (runeSize c cs - 1) cs)"

subsection \<open>fmt: left-aligned padding\<close>

text \<open>
  \<^verbatim>\<open>fmt.Sprintf("%-*s", width, s)\<close>.  The width is taken from the argument list; a
  width beyond a million in either direction is refused and the marker
  \<^verbatim>\<open>%!(BADWIDTH)\<close> is written instead, the operand following without padding.  Otherwise
  \<^verbatim>\<open>padString\<close> appends \<^verbatim>\<open>width - utf8.RuneCountInString(s)\<close> spaces when that number
  is positive: the padding counts runes, not bytes.
\<close>

definition badWidthString :: string where
  "badWidthString = ''%!(BADWIDTH)''"

definition Sprintf_padded :: "int \<Rightarrow> string \<Rightarrow> string" where
  "Sprintf_padded width s =
     (if width > 1000000 \<or> width < - 1000000 then badWidthString @ s
      else s @ replicate (nat \<bar>width\<bar> - RuneCountInString s) CHR '' '')"

subsection \<open>strings\<close>

fun Join :: "string list \<Rightarrow> string \<Rightarrow> string" where
  "Join [] sep = []"
| "Join [x] sep = x"
| "Join (x # y # zs) sep = x @ sep @ Join (y # zs) sep"

text \<open>\<^verbatim>\<open>strings.LastIndex(s, "/")\<close> for a one-byte separator: \<open>-1\<close> when it is absent.\<close>

definition LastIndex :: "string \<Rightarrow> char \<Rightarrow> int" where
  "LastIndex s c =
     (if c \<in> set s then int (length s - 1 - length (takeWhile (\<lambda>x. x \<noteq> c) (rev s)))
      else - 1)"

subsection \<open>strconv: decimal integers\<close>

fun digits10 :: "nat \<Rightarrow> string" where
  "digits10 n =
     (if n < 10 then [''0123456789'' ! n]
      else digits10 (n div 10) @ [''0123456789'' ! (n mod 10)])"

definition FormatInt :: "int \<Rightarrow> string" where
  "FormatInt i = (if i < 0 then ''-'' @ digits10 (nat (- i)) else digits10 (nat i))"

definition FormatBool :: "bool \<Rightarrow> string" where
  "FormatBool b = (if b then ''true'' else ''false'')"

subsection \<open>strconv.ParseFloat: when the error is nil\<close>

text \<open>
  \<^verbatim>\<open>needsQuoting\<close> only asks whether \<^verbatim>\<open>strconv.ParseFloat(s, 64)\<close> returns a nil
  error.  That is the case when the whole of \<open>s\<close> is consumed, either by \<^verbatim>\<open>special\<close>
  (infinities and NaN, any letter case) or by \<^verbatim>\<open>readFloat\<close> (decimal and hexadecimal
  literals, underscores checked by \<^verbatim>\<open>underscoreOK\<close>), and the value is not rounded to an
  infinity (\<^verbatim>\<open>ErrRange\<close>).  The value of the parsed number plays no other part, so the
  scanner below keeps the digits as an exact natural number and a power of the base.
\<close>

fun commonPrefixLenIgnoreCase :: "string \<Rightarrow> string \<Rightarrow> nat" where
  "commonPrefixLenIgnoreCase (c # s) (p # ps) =
     (if (if byte CHR ''A'' \<le> byte c \<and> byte c \<le> byte CHR ''Z'' then lower c else c) = p
      then Suc (commonPrefixLenIgnoreCase s ps) else 0)"
| "commonPrefixLenIgnoreCase _ _ = 0"

definition special_inf :: "string \<Rightarrow> nat \<Rightarrow> nat option" where
  "special_inf s nsign =
     (let n = commonPrefixLenIgnoreCase s ''infinity'';
          n = (if 3 < n \<and> n < 8 then 3 else n)
      in if n = 3 \<or> n = 8 then Some (nsign + n) else None)"

text \<open>\<^verbatim>\<open>special\<close>: the number of bytes consumed, when the prefix is an infinity or NaN.\<close>

definition special :: "string \<Rightarrow> nat option" where
  "special s =
     (case s of
        [] \<Rightarrow> None
      | c # cs \<Rightarrow>
          if c = CHR ''+'' \<or> c = CHR ''-'' then special_inf cs 1
          else if c = CHR ''i'' \<or> c = CHR ''I'' then special_inf s 0
          else if c = CHR ''n'' \<or> c = CHR ''N'' then
            (if commonPrefixLenIgnoreCase s ''nan'' = 3 then Some 3 else None)
          else None)"

record scan =
  sawdot :: bool
  sawdigits :: bool
  sc_nd :: nat
  sc_dp :: int
  sc_mantissa :: nat
  underscores :: bool

definition scan0 :: scan where
  "scan0 = \<lparr>sawdot = False, sawdigits = False, sc_nd = 0, sc_dp = 0, sc_mantissa = 0,
            underscores = False\<rparr>"

text \<open>
  The digit loop of \<^verbatim>\<open>readFloat\<close>; it returns the scanner state and the unread rest.
  \<^verbatim>\<open>readFloat\<close> keeps the first 19 digits (16 in base 16) in a machine word and a flag
  for dropped non-zero digits; here the mantissa keeps every digit.
\<close>

fun readDigits :: "bool \<Rightarrow> scan \<Rightarrow> string \<Rightarrow> scan \<times> string" where
  "readDigits hex st [] = (st, [])"
| "readDigits hex st (c # cs) =
     (if c = CHR ''_'' then readDigits hex (st\<lparr>underscores := True\<rparr>) cs
      else if c = CHR ''.'' then
        (if sawdot st then (st, c # cs)
         else readDigits hex (st\<lparr>sawdot := True, sc_dp := int (sc_nd st)\<rparr>) cs)
      else if isDigit c then
        (if c = CHR ''0'' \<and> sc_nd st = 0
         then readDigits hex (st\<lparr>sawdigits := True, sc_dp := sc_dp st - 1\<rparr>) cs
         else readDigits hex
                (st\<lparr>sawdigits := True, sc_nd := sc_nd st + 1,
                    sc_mantissa := sc_mantissa st * (if hex then 16 else 10)
                                   + (byte c - byte CHR ''0'')\<rparr>) cs)
      else if hex \<and> isHexLetter c then
        readDigits hex
          (st\<lparr>sawdigits := True, sc_nd := sc_nd st + 1,
              sc_mantissa := sc_mantissa st * 16 + (byte (lower c) - byte CHR ''a'' + 10)\<rparr>) cs
      else (st, c # cs))"

text \<open>The exponent digits: the exponent stops growing once it has reached 10000.\<close>

fun readExpDigits :: "nat \<Rightarrow> bool \<Rightarrow> string \<Rightarrow> nat \<times> bool \<times> string" where
  "readExpDigits e u [] = (e, u, [])"
| "readExpDigits e u (c # cs) =
     (if c = CHR ''_'' then readExpDigits e True cs
      else if isDigit c then
        readExpDigits (if e < 10000 then e * 10 + (byte c - byte CHR ''0'') else e) u cs
      else (e, u, c # cs))"

text \<open>
  \<^verbatim>\<open>readFloat\<close>: \<open>None\<close> when it reports \<^verbatim>\<open>ok = false\<close>; otherwise whether the number is
  hexadecimal, the mantissa \<open>m\<close> and exponent \<open>e\<close> (the value is \<open>m * 10 ^ e\<close>, or
  \<open>m * 2 ^ e\<close> in base 16), whether an underscore was seen, and the unread rest.
\<close>

definition readFloat :: "string \<Rightarrow> (bool \<times> nat \<times> int \<times> bool \<times> string) option" where
  "readFloat s =
     (if s = [] then None
      else
        let s1 = (if hd s = CHR ''+'' \<or> hd s = CHR ''-'' then tl s else s);
            hex = (2 < length s1 \<and> s1 ! 0 = CHR ''0'' \<and> lower (s1 ! 1) = CHR ''x'');
            (st, r) = readDigits hex scan0 (if hex then drop 2 s1 else s1)
        in if \<not> sawdigits st then None
           else
             let dp = (if sawdot st then sc_dp st else int (sc_nd st));
                 dp = (if hex then dp * 4 else dp);
                 nd = (if hex then int (sc_nd st) * 4 else int (sc_nd st))
             in if r \<noteq> [] \<and> lower (hd r) = (if hex then CHR ''p'' else CHR ''e'') then
                  (case tl r of
                     [] \<Rightarrow> None
                   | c # cs \<Rightarrow>
                       let esign = (if c = CHR ''-'' then - 1 else 1 :: int);
                           r2 = (if c = CHR ''+'' \<or> c = CHR ''-'' then cs else c # cs)
                       in if r2 = [] \<or> \<not> isDigit (hd r2) then None
                          else
                            let (e, u, r3) = readExpDigits 0 False r2
                            in Some (hex, sc_mantissa st, dp + int e * esign - nd,
                                     underscores st \<or> u, r3))
                else if hex then None
                else Some (hex, sc_mantissa st, dp - nd, underscores st, r))"

fun underscoreLoop :: "bool \<Rightarrow> char \<Rightarrow> string \<Rightarrow> bool" where
  "underscoreLoop hex saw [] = (saw \<noteq> CHR ''_'')"
| "underscoreLoop hex saw (c # cs) =
     (if isDigit c \<or> (hex \<and> isHexLetter c) then underscoreLoop hex CHR ''0'' cs
      else if c = CHR ''_'' then
        (if saw \<noteq> CHR ''0'' then False else underscoreLoop hex CHR ''_'' cs)
      else if saw = CHR ''_'' then False
      else underscoreLoop hex CHR ''!'' cs)"

definition underscoreOK :: "string \<Rightarrow> bool" where
  "underscoreOK s =
     (let s1 = (if 1 \<le> length s \<and> (s ! 0 = CHR ''-'' \<or> s ! 0 = CHR ''+'') then tl s else s);
          pre = (2 \<le> length s1 \<and> s1 ! 0 = CHR ''0'' \<and>
                 (lower (s1 ! 1) = CHR ''b'' \<or> lower (s1 ! 1) = CHR ''o''
                  \<or> lower (s1 ! 1) = CHR ''x''));
          hex = (pre \<and> lower (s1 ! 1) = CHR ''x'')
      in underscoreLoop hex (if pre then CHR ''0'' else CHR ''^'')
           (if pre then drop 2 s1 else s1))"

text \<open>
  \<^verbatim>\<open>ErrRange\<close>: the number is at least half a unit in the last place beyond the largest
  \<^verbatim>\<open>float64\<close>, that is at least \<open>2 ^ 1024 - 2 ^ 970\<close> in magnitude.  The number is
  written out in decimal so that comparisons with it are comparisons of numerals.
\<close>

definition overflowThreshold :: nat where
  "overflowThreshold =
     179769313486231580793728971405303415079934132710037826936173778980444968292764750946649017977587207096330286416692887910946555547851940402630657488671505820681908902000708383676273854845817711531764475730270069855571366959622842914819860834936475292719074168444365510704342711559699508093042880177904174497792"

definition overflows :: "bool \<Rightarrow> nat \<Rightarrow> int \<Rightarrow> bool" where
  "overflows hex m e =
     (let b = (if hex then 2 else 10 :: nat)
      in if 0 \<le> e then overflowThreshold \<le> m * b ^ nat e
         else overflowThreshold * b ^ nat (- e) \<le> m)"

definition ParseFloat_ok :: "string \<Rightarrow> bool" where
  "ParseFloat_ok s =
     (case special s of
        Some n \<Rightarrow> n = length s
      | None \<Rightarrow>
          (case readFloat s of
             None \<Rightarrow> False
           | Some (hex, m, e, u, rest) \<Rightarrow>
               rest = [] \<and> (if u then underscoreOK s else True) \<and> \<not> overflows hex m e))"

subsection \<open>Slices and \<^verbatim>\<open>append\<close>\<close>

text \<open>
  A Go slice is a header (backing array, length, capacity); copying a struct copies the
  header and shares the array.  The backing arrays live in a heap: a map from addresses to
  the cells of each array (as many as its capacity) and the next unused address.  The nil
  slice has length and capacity zero.
\<close>

record slice =
  sl_array :: nat
  sl_len :: nat
  sl_cap :: nat

record 'a heap =
  cells :: "nat \<Rightarrow> 'a list"
  nextAddr :: nat

definition nil_slice :: slice where
  "nil_slice = \<lparr>sl_array = 0, sl_len = 0, sl_cap = 0\<rparr>"

definition heap0 :: "'a heap" where
  "heap0 = \<lparr>cells = (\<lambda>_. []), nextAddr = 1\<rparr>"

definition slice_read :: "'a heap \<Rightarrow> slice \<Rightarrow> 'a list" where
  "slice_read H s = take (sl_len s) (cells H (sl_array s))"

text \<open>
  The capacity \<^verbatim>\<open>growslice\<close> of the runtime asks for (\<^verbatim>\<open>nextslicecap\<close>): the needed
  length when that is more than double the old capacity, double the old capacity below
  256 elements, and growth by a quarter plus 192 until the length fits above that.  The
  allocator may round the capacity up to a size class; that only adds spare cells and is
  left out.
\<close>

function grow125 :: "nat \<Rightarrow> nat \<Rightarrow> nat" where
  "grow125 newcap newLen =
     (let n = newcap + (newcap + 3 * 256) div 4
      in if newLen \<le> n then n else grow125 n newLen)"
  by pat_completeness auto
termination
  by (relation "measure (\<lambda>(newcap, newLen). newLen - newcap)") auto

declare grow125.simps [simp del]

definition nextslicecap :: "nat \<Rightarrow> nat \<Rightarrow> nat" where
  "nextslicecap newLen oldCap =
     (if oldCap + oldCap < newLen then newLen
      else if oldCap < 256 then oldCap + oldCap
      else grow125 oldCap newLen)"

text \<open>
  \<^verbatim>\<open>append(s, xs...)\<close>: when the capacity suffices the new elements are written into the
  backing array of \<open>s\<close>, behind its length, and the result shares that array; otherwise
  a new array is allocated, the elements of \<open>s\<close> copied and the new ones written behind
  them.  \<open>z\<close> is the zero value of the element type, in the cells not yet written.
\<close>

definition append_slice :: "'a \<Rightarrow> 'a heap \<Rightarrow> slice \<Rightarrow> 'a list \<Rightarrow> slice \<times> 'a heap" where
  "append_slice z H s xs =
     (let n = sl_len s + length xs
      in if n \<le> sl_cap s then
           (s\<lparr>sl_len := n\<rparr>,
            H\<lparr>cells := (cells H)(sl_array s :=
                  take (sl_len s) (cells H (sl_array s)) @ xs @ drop n (cells H (sl_array s)))\<rparr>)
         else
           let c = nextslicecap n (sl_cap s); p = nextAddr H
           in (\<lparr>sl_array = p, sl_len = n, sl_cap = c\<rparr>,
               H\<lparr>cells := (cells H)(p := slice_read H s @ xs @ replicate (c - n) z),
                 nextAddr := Suc p\<rparr>))"

text \<open>
  A slice is well formed in a heap when its length is within its capacity, its backing
  array has that many cells and has been allocated.
\<close>

definition slice_ok :: "'a heap \<Rightarrow> slice \<Rightarrow> bool" where
  "slice_ok H s \<longleftrightarrow>
     sl_len s \<le> sl_cap s \<and> sl_cap s \<le> length (cells H (sl_array s)) \<and> sl_array s < nextAddr H"

section \<open>log/slog: levels, values, attributes, records\<close>

type_synonym Level = int

definition LevelDebug :: Level where "LevelDebug = - 4"
definition LevelInfo :: Level where "LevelInfo = 0"
definition LevelWarn :: Level where "LevelWarn = 4"
definition LevelError :: Level where "LevelError = 8"

text \<open>
  A \<^verbatim>\<open>time.Time\<close> and a \<^verbatim>\<open>time.Duration\<close> are numbers; their formatting belongs to the
  library and is a parameter.  An interface value (\<^verbatim>\<open>any\<close>) is nil, a value with an
  \<^verbatim>\<open>Error()\<close> method (kept: the text it returns) or another value (kept: the text
  \<^verbatim>\<open>fmt\<close> prints for it).  Of a float, a group and a \<^verbatim>\<open>LogValuer\<close> the handler only
  ever takes \<^verbatim>\<open>Value.String()\<close>, so these three kinds carry that text.
\<close>

type_synonym Time = int
type_synonym Duration = int

datatype anyval = AnyNil | AnyError string | AnyOther string

datatype Value =
    KindAny anyval
  | KindBool bool
  | KindDuration Duration
  | KindFloat64 string
  | KindInt64 int
  | KindString string
  | KindTime Time
  | KindUint64 nat
  | KindGroup string
  | KindLogValuer string

record Attr =
  Key :: string
  Value :: Value

text \<open>\<^verbatim>\<open>slog.Attr{}\<close>: the empty key and the zero \<^verbatim>\<open>Value\<close>, of kind \<^verbatim>\<open>Any\<close>, holding nil.\<close>

definition zeroAttr :: Attr where
  "zeroAttr = \<lparr>Key = [], Value = KindAny AnyNil\<rparr>"

text \<open>
  \<^verbatim>\<open>attr.Equal(slog.Attr{})\<close>.  \<^verbatim>\<open>Attr.Equal\<close> asks for equal keys and \<^verbatim>\<open>Value.Equal\<close>,
  which asks for the same kind and, for the kind \<^verbatim>\<open>Any\<close>, the same interface value: an
  attribute equals the zero attribute when its key is empty and its value is of kind
  \<^verbatim>\<open>Any\<close> and holds nil.
\<close>

definition Equal_zeroAttr :: "Attr \<Rightarrow> bool" where
  "Equal_zeroAttr a \<longleftrightarrow> Key a = Key zeroAttr \<and> Value a = Value zeroAttr"

record Record =
  rec_Time :: Time
  rec_Message :: string
  rec_Level :: Level
  rec_PC :: nat
  rec_Attrs :: "Attr list"

type_synonym Writer = nat

text \<open>
  The handlers of \<^verbatim>\<open>slog\<close> itself (\<^verbatim>\<open>slog.NewJSONHandler\<close>, \<^verbatim>\<open>slog.NewTextHandler\<close>):
  the writer and options they were made with and the chain of \<^verbatim>\<open>WithAttrs\<close> and
  \<^verbatim>\<open>WithGroup\<close> calls that led to them.  Their \<^verbatim>\<open>Enabled\<close> compares with the level of
  the options.
\<close>

datatype chainop = OpAttrs "Attr list" | OpGroup string

record slogHandler =
  sh_json :: bool
  sh_w :: Writer
  sh_AddSource :: bool
  sh_Level :: Level
  sh_chain :: "chainop list"

definition slog_Enabled :: "slogHandler \<Rightarrow> Level \<Rightarrow> bool" where
  "slog_Enabled sh level \<longleftrightarrow> sh_Level sh \<le> level"

definition slog_WithAttrs :: "slogHandler \<Rightarrow> Attr list \<Rightarrow> slogHandler" where
  "slog_WithAttrs sh as = sh\<lparr>sh_chain := sh_chain sh @ [OpAttrs as]\<rparr>"

definition slog_WithGroup :: "slogHandler \<Rightarrow> string \<Rightarrow> slogHandler" where
  "slog_WithGroup sh name = sh\<lparr>sh_chain := sh_chain sh @ [OpGroup name]\<rparr>"

subsection \<open>The library functions taken as parameters\<close>

record env =
  Quote :: "string \<Rightarrow> string"
  Time_Format :: "Time \<Rightarrow> string \<Rightarrow> string"
  Time_String :: "Time \<Rightarrow> string"
  Duration_String :: "Duration \<Rightarrow> string"
  CallersFrames :: "nat \<Rightarrow> string \<times> int"
  JSON_encode :: "slogHandler \<Rightarrow> Record \<Rightarrow> string"
  Write_err :: "Writer \<Rightarrow> string \<Rightarrow> string option"

text \<open>
  \<^verbatim>\<open>Quote\<close> is \<^verbatim>\<open>strconv.Quote\<close> (the verb \<^verbatim>\<open>%q\<close>); \<^verbatim>\<open>CallersFrames\<close> gives the file
  and line of the frame of a program counter; \<^verbatim>\<open>JSON_encode\<close> is the line the JSON
  handler of \<^verbatim>\<open>slog\<close> produces; \<^verbatim>\<open>Write_err\<close> is the error a writer returns for a
  write, if any.

  \<^verbatim>\<open>Value.String()\<close>:
\<close>

definition Value_String :: "env \<Rightarrow> Value \<Rightarrow> string" where
  "Value_String E v =
     (case v of
        KindAny AnyNil \<Rightarrow> ''<nil>''
      | KindAny (AnyError e) \<Rightarrow> e
      | KindAny (AnyOther t) \<Rightarrow> t
      | KindBool b \<Rightarrow> FormatBool b
      | KindDuration d \<Rightarrow> Duration_String E d
      | KindFloat64 t \<Rightarrow> t
      | KindInt64 i \<Rightarrow> FormatInt i
      | KindString s \<Rightarrow> s
      | KindTime t \<Rightarrow> Time_String E t
      | KindUint64 n \<Rightarrow> digits10 n
      | KindGroup t \<Rightarrow> t
      | KindLogValuer t \<Rightarrow> t)"

definition RFC3339 :: string where
  "RFC3339 = ''2006-01-02T15:04:05Z07:00''"

section \<open>The handler (\<^verbatim>\<open>handler.go\<close>, \<^verbatim>\<open>options.go\<close>, \<^verbatim>\<open>humanlog.go\<close>)\<close>

subsection \<open>Constants, options, the handler and the state of the program\<close>

definition messageWidth :: int where
  "messageWidth = 40"

definition colorReset :: string where "colorReset = CHR 0x1B # ''[0m''"
definition colorRed :: string where "colorRed = CHR 0x1B # ''[31m''"
definition colorYellow :: string where "colorYellow = CHR 0x1B # ''[33m''"
definition colorBlue :: string where "colorBlue = CHR 0x1B # ''[34m''"
definition colorGray :: string where "colorGray = CHR 0x1B # ''[90m''"

definition SourceKey :: string where
  "SourceKey = ''source''"

text \<open>An \<^verbatim>\<open>io.Writer\<close> is an interface value: \<open>None\<close> is nil.\<close>

record Options =
  Level :: Level
  Writer :: "Writer option"
  TimeFormat :: string
  DisableColor :: bool
  AddSource :: bool
  MessageWidth :: int
  UseJSON :: bool

definition DefaultOptions :: Options where
  "DefaultOptions =
     \<lparr>Level = LevelInfo, Writer = None, TimeFormat = ''15:04:05'', DisableColor = False,
      AddSource = True, MessageWidth = 40, UseJSON = False\<rparr>"

text \<open>
  The struct \<^verbatim>\<open>Handler\<close>; the mutex is left out, the model being sequential.  The fields
  are unexported, so a handler is made by \<^verbatim>\<open>NewHandler\<close> or derived from one, and its
  embedded \<^verbatim>\<open>slog\<close> handler is never nil.
\<close>

record Handler =
  h_h :: slogHandler
  h_opts :: Options
  h_attrs :: slice
  h_groups :: slice

text \<open>
  The state of the program: the backing arrays of the attribute slices and of the group
  slices, and the writes made so far, in order, each with the writer it went to.
\<close>

record world =
  attrHeap :: "Attr heap"
  strHeap :: "string heap"
  written :: "(Writer \<times> string) list"

definition world0 :: world where
  "world0 = \<lparr>attrHeap = heap0, strHeap = heap0, written = []\<rparr>"

datatype panic = Panic string

subsection \<open>\<^verbatim>\<open>NewHandler\<close>\<close>

definition NewHandler :: "Writer option \<Rightarrow> Options option \<Rightarrow> panic + Handler" where
  "NewHandler w opts =
     (let opts = (case opts of None \<Rightarrow> DefaultOptions | Some given \<Rightarrow> given)
      in case w of
           None \<Rightarrow> Inl (Panic ''humanlog: nil writer'')
         | Some wr \<Rightarrow>
             let options = opts\<lparr>Writer := Some wr\<rparr>;
                 underlyingHandler =
                   \<lparr>sh_json = UseJSON opts, sh_w = wr, sh_AddSource = AddSource opts,
                    sh_Level = Level opts, sh_chain = []\<rparr>
             in Inr \<lparr>h_h = underlyingHandler, h_opts = options, h_attrs = nil_slice,
                     h_groups = nil_slice\<rparr>)"

subsection \<open>\<^verbatim>\<open>Enabled\<close>\<close>

definition Enabled :: "Handler \<Rightarrow> Level \<Rightarrow> bool" where
  "Enabled h level = slog_Enabled (h_h h) level"

subsection \<open>\<^verbatim>\<open>formatLevel\<close>\<close>

definition formatLevel :: "Level \<Rightarrow> bool \<Rightarrow> string" where
  "formatLevel level disableColor =
     (let (levelStr, colorCode) =
            (if level \<ge> LevelError then (''ERROR'', colorRed)
             else if level \<ge> LevelWarn then (''WARN '', colorYellow)
             else if level \<ge> LevelInfo then (''INFO '', colorBlue)
             else (''DEBUG'', colorGray))
      in if disableColor then levelStr else colorCode @ levelStr @ colorReset)"

subsection \<open>\<^verbatim>\<open>needsQuoting\<close>\<close>

text \<open>The test made on every rune of the string.\<close>

definition quoteRune :: "nat \<Rightarrow> bool" where
  "quoteRune r \<longleftrightarrow>
     r \<le> byte CHR '' '' \<or> r = byte CHR ''='' \<or> r = byte CHR 0x22 \<or> r = byte CHR 0x27
     \<or> r = byte CHR 0x60 \<or> r = byte CHR ''['' \<or> r = byte CHR '']'' \<or> r = byte CHR ''{''
     \<or> r = byte CHR ''}''"

definition needsQuoting :: "string \<Rightarrow> bool" where
  "needsQuoting s =
     (if s = [] then True
      else if ParseFloat_ok s then False
      else if s = ''true'' \<or> s = ''false'' \<or> s = ''nil'' then True
      else list_ex quoteRune (runes s))"

subsection \<open>\<^verbatim>\<open>formatAttr\<close>\<close>

definition formatAttr :: "env \<Rightarrow> Attr \<Rightarrow> bool \<Rightarrow> string" where
  "formatAttr E attr disableColor =
     (if Equal_zeroAttr attr then []
      else
        let key = Key attr; val = Value attr
        in case val of
             KindString s \<Rightarrow>
               if needsQuoting s then key @ ''='' @ Quote E s else key @ ''='' @ s
           | KindTime t \<Rightarrow> key @ ''='' @ Time_Format E t RFC3339
           | KindDuration d \<Rightarrow> key @ ''='' @ Duration_String E d
           | KindAny (AnyError err) \<Rightarrow> key @ ''='' @ Quote E err
           | _ \<Rightarrow> key @ ''='' @ Value_String E val)"

subsection \<open>\<^verbatim>\<open>appendAttrs\<close>\<close>

definition appendAttrs :: "env \<Rightarrow> world \<Rightarrow> Handler \<Rightarrow> string list \<Rightarrow> Attr list \<Rightarrow> string list" where
  "appendAttrs E W h attrs newAttrs =
     (let prefix = Join (slice_read (strHeap W) (h_groups h)) ''.''
      in foldl (\<lambda>attrs attr.
                  let key = (if prefix \<noteq> [] then prefix @ ''.'' @ Key attr else Key attr)
                  in attrs @ [formatAttr E \<lparr>Key = key, Value = Value attr\<rparr>
                                (DisableColor (h_opts h))])
           attrs newAttrs)"

subsection \<open>\<^verbatim>\<open>Handle\<close>\<close>

text \<open>
  The message field of \<^verbatim>\<open>Handle\<close> (the local \<^verbatim>\<open>formattedMessage\<close>), from the configured
  width and the message of the record.
\<close>

definition formattedMessage :: "int \<Rightarrow> string \<Rightarrow> string" where
  "formattedMessage mw msg =
     (let width = (if mw \<le> 0 then messageWidth else mw);
          message =
            (if int (length msg) > width then
               (if width > 3 then take (nat (width - 3)) msg @ ''...''
                else take (nat width) msg)
             else msg)
      in Sprintf_padded width message)"

text \<open>The part of the file name behind its last slash.\<close>

definition shortFile :: "string \<Rightarrow> string" where
  "shortFile file =
     (let i = LastIndex file CHR ''/''
      in if i \<noteq> - 1 then drop (nat (i + 1)) file else file)"

text \<open>
  \<^verbatim>\<open>io.WriteString\<close>: one write to the writer, whose error is returned; a nil writer
  panics.  \<^verbatim>\<open>slog_Handle\<close> is the \<^verbatim>\<open>Handle\<close> of the JSON handler of \<^verbatim>\<open>slog\<close>: one
  write of the encoded record to its own writer.
\<close>

definition WriteString :: "env \<Rightarrow> Writer option \<Rightarrow> string \<Rightarrow> world \<Rightarrow> (panic + string option) \<times> world" where
  "WriteString E w s W =
     (case w of
        None \<Rightarrow> (Inl (Panic ''invalid memory address or nil pointer dereference''), W)
      | Some wr \<Rightarrow> (Inr (Write_err E wr s), W\<lparr>written := written W @ [(wr, s)]\<rparr>))"

definition slog_Handle :: "env \<Rightarrow> slogHandler \<Rightarrow> Record \<Rightarrow> world \<Rightarrow> (panic + string option) \<times> world" where
  "slog_Handle E sh r W = WriteString E (Some (sh_w sh)) (JSON_encode E sh r) W"

definition Handle :: "env \<Rightarrow> Handler \<Rightarrow> Record \<Rightarrow> world \<Rightarrow> (panic + string option) \<times> world" where
  "Handle E h r W =
     (if \<not> Enabled h (rec_Level r) then (Inr None, W)
      else if UseJSON (h_opts h) then slog_Handle E (h_h h) r W
      else
        let timeStr = Time_Format E (rec_Time r) (TimeFormat (h_opts h));
            levelStr = formatLevel (rec_Level r) (DisableColor (h_opts h));
            sb = ''['' @ timeStr @ ''] '' @ levelStr @ '' ''
                 @ formattedMessage (MessageWidth (h_opts h)) (rec_Message r);
            attrs = appendAttrs E W h [] (slice_read (attrHeap W) (h_attrs h));
            attrs = foldl (\<lambda>attrs attr. appendAttrs E W h attrs [attr]) attrs (rec_Attrs r);
            attrs =
              (if AddSource (h_opts h) \<and> rec_PC r \<noteq> 0 then
                 (let (file, line) = CallersFrames E (rec_PC r)
                  in if file \<noteq> [] then
                       attrs @ [formatAttr E
                                  \<lparr>Key = SourceKey,
                                   Value = KindString (shortFile file @ '':'' @ FormatInt line)\<rparr>
                                  (DisableColor (h_opts h))]
                     else attrs)
               else attrs);
            sb = (if attrs \<noteq> [] then sb @ '' '' @ Join attrs '' '' else sb);
            sb = sb @ [CHR 0x0A]
        in WriteString E (Writer (h_opts h)) sb W)"

subsection \<open>\<^verbatim>\<open>WithAttrs\<close> and \<^verbatim>\<open>WithGroup\<close>\<close>

text \<open>
  In text mode both copy the handler (\<^verbatim>\<open>h2 := *h\<close>, which copies the slice headers) and
  \<^verbatim>\<open>append\<close> to the copied slice.
\<close>

definition WithAttrs :: "Handler \<Rightarrow> Attr list \<Rightarrow> world \<Rightarrow> Handler \<times> world" where
  "WithAttrs h attrs W =
     (if UseJSON (h_opts h) then
        (\<lparr>h_h = slog_WithAttrs (h_h h) attrs, h_opts = h_opts h, h_attrs = nil_slice,
          h_groups = nil_slice\<rparr>, W)
      else
        let (s, H) = append_slice zeroAttr (attrHeap W) (h_attrs h) attrs
        in (h\<lparr>h_attrs := s\<rparr>, W\<lparr>attrHeap := H\<rparr>))"

definition WithGroup :: "Handler \<Rightarrow> string \<Rightarrow> world \<Rightarrow> Handler \<times> world" where
  "WithGroup h name W =
     (if UseJSON (h_opts h) then
        (\<lparr>h_h = slog_WithGroup (h_h h) name, h_opts = h_opts h, h_attrs = nil_slice,
          h_groups = nil_slice\<rparr>, W)
      else
        let (s, H) = append_slice [] (strHeap W) (h_groups h) [name]
        in (h\<lparr>h_groups := s\<rparr>, W\<lparr>strHeap := H\<rparr>))"

section \<open>The earlier revision of the handler\<close>

text \<open>
  The repository also holds an earlier revision of the same files: \<^verbatim>\<open>Options\<close> with four
  fields, a \<^verbatim>\<open>Handler\<close> without the embedded \<^verbatim>\<open>slog\<close> handler, and \<^verbatim>\<open>Enabled\<close>,
  \<^verbatim>\<open>Handle\<close>, \<^verbatim>\<open>WithAttrs\<close> and \<^verbatim>\<open>WithGroup\<close> written differently.  Its definitions
  carry the suffix \<open>_old\<close>.  That revision builds every slice of a derived handler with
  \<^verbatim>\<open>make\<close> and fills it by \<^verbatim>\<open>copy\<close> and \<^verbatim>\<open>append\<close> within the capacity it asked for, so no
  two handlers share a backing array and a slice is the list of its elements.
\<close>

record Options_old =
  Level_old :: Level
  Writer_old :: "Writer option"
  TimeFormat_old :: string
  DisableColor_old :: bool

definition DefaultOptions_old :: Options_old where
  "DefaultOptions_old =
     \<lparr>Level_old = LevelInfo, Writer_old = None, TimeFormat_old = ''15:04:05'',
      DisableColor_old = False\<rparr>"

record Handler_old =
  opts_old :: Options_old
  attrs_old :: "Attr list"
  groups_old :: "string list"

definition NewHandler_old :: "Writer option \<Rightarrow> Options_old option \<Rightarrow> panic + Handler_old" where
  "NewHandler_old w opts =
     (let opts = (case opts of None \<Rightarrow> DefaultOptions_old | Some given \<Rightarrow> given)
      in case w of
           None \<Rightarrow> Inl (Panic ''humanlog: nil writer'')
         | Some wr \<Rightarrow>
             Inr \<lparr>opts_old = opts\<lparr>Writer_old := Some wr\<rparr>, attrs_old = [], groups_old = []\<rparr>)"

definition Enabled_old :: "Handler_old \<Rightarrow> Level \<Rightarrow> bool" where
  "Enabled_old h level \<longleftrightarrow> level \<ge> Level_old (opts_old h)"

definition WithAttrs_old :: "Handler_old \<Rightarrow> Attr list \<Rightarrow> Handler_old" where
  "WithAttrs_old h attrs =
     \<lparr>opts_old = opts_old h,
      attrs_old =
        attrs_old h @
        (if length (groups_old h) > 0 then
           (let group = Join (groups_old h) ''.''
            in map (\<lambda>attr. \<lparr>Key = group @ ''.'' @ Key attr, Value = Value attr\<rparr>) attrs)
         else attrs),
      groups_old = groups_old h\<rparr>"

definition WithGroup_old :: "Handler_old \<Rightarrow> string \<Rightarrow> Handler_old" where
  "WithGroup_old h name =
     (if name = [] then h
      else \<lparr>opts_old = opts_old h, attrs_old = attrs_old h, groups_old = groups_old h @ [name]\<rparr>)"

definition Handle_old :: "env \<Rightarrow> Handler_old \<Rightarrow> Record \<Rightarrow> world \<Rightarrow> (panic + string option) \<times> world" where
  "Handle_old E h r W =
     (let timeStr = Time_Format E (rec_Time r) (TimeFormat_old (opts_old h));
          levelStr = formatLevel (rec_Level r) (DisableColor_old (opts_old h));
          message =
            (if int (length (rec_Message r)) > messageWidth
             then take (nat (messageWidth - 3)) (rec_Message r) @ ''...''
             else rec_Message r);
          sb = ''['' @ timeStr @ ''] '' @ levelStr @ '' '' @ Sprintf_padded messageWidth message;
          attrs = map (\<lambda>attr. formatAttr E attr (DisableColor_old (opts_old h))) (attrs_old h);
          attrs = attrs
                  @ map (\<lambda>attr. formatAttr E attr (DisableColor_old (opts_old h))) (rec_Attrs r);
          sb = (if attrs \<noteq> [] then sb @ Join attrs '' '' else sb);
          sb = sb @ [CHR 0x0A]
      in WriteString E (Writer_old (opts_old h)) sb W)"

section \<open>Values used in the examples\<close>

text \<open>
  \<^verbatim>\<open>slog.String(key, value)\<close>; the options the tests of the repository pass
  (\<^verbatim>\<open>&Options{Level: slog.LevelInfo, DisableColor: true}\<close>); the handler
  \<^verbatim>\<open>NewHandler\<close> makes from them for the writer number 1; a record at level
  \<^verbatim>\<open>Info\<close> without a program counter.
\<close>

definition slog_String :: "string \<Rightarrow> string \<Rightarrow> Attr" where
  "slog_String key v = \<lparr>Key = key, Value = KindString v\<rparr>"

definition testOptions :: Options where
  "testOptions =
     \<lparr>Level = LevelInfo, Writer = None, TimeFormat = [], DisableColor = True,
      AddSource = False, MessageWidth = 0, UseJSON = False\<rparr>"

definition testHandler :: Handler where
  "testHandler = projr (NewHandler (Some 1) (Some testOptions))"

definition testRecord :: "string \<Rightarrow> Attr list \<Rightarrow> Record" where
  "testRecord msg attrs =
     \<lparr>rec_Time = 0, rec_Message = msg, rec_Level = LevelInfo, rec_PC = 0, rec_Attrs = attrs\<rparr>"

text \<open>
  An instance of the library parameters: quoting that wraps the text in double quotes (what
  \<^verbatim>\<open>strconv.Quote\<close> does for printable ASCII text without quotes and backslashes), a
  clock that reads noon, durations in seconds, no frame table, an empty JSON object and
  writers that never fail.
\<close>

definition sampleEnv :: env where
  "sampleEnv =
     \<lparr>Quote = (\<lambda>s. [CHR 0x22] @ s @ [CHR 0x22]),
      Time_Format = (\<lambda>t layout. ''12:00:00''),
      Time_String = (\<lambda>t. ''12:00:00''),
      Duration_String = (\<lambda>d. FormatInt (d div 1000000000) @ ''s''),
      CallersFrames = (\<lambda>pc. ([], 0)),
      JSON_encode = (\<lambda>sh r. ''{}'' @ [CHR 0x0A]),
      Write_err = (\<lambda>w s. None)\<rparr>"

text \<open>The lines written so far, oldest first.\<close>

definition lines_written :: "world \<Rightarrow> string list" where
  "lines_written W = map snd (written W)"

section \<open>Properties\<close>

subsection \<open>Evaluation rules\<close>

lemmas ParseFloat_eval = ParseFloat_ok_def special_def special_inf_def readFloat_def scan0_def
  isDigit_def isHexLetter_def byte_def overflows_def overflowThreshold_def underscoreOK_def

lemmas handler_eval = testHandler_def testOptions_def testRecord_def NewHandler_def
  WithAttrs_def WithGroup_def append_slice_def nextslicecap_def slice_read_def nil_slice_def
  world0_def heap0_def Handle_def Enabled_def slog_Enabled_def appendAttrs_def formatAttr_def
  Equal_zeroAttr_def zeroAttr_def slog_String_def formattedMessage_def Sprintf_padded_def
  messageWidth_def formatLevel_def LevelInfo_def LevelWarn_def LevelError_def LevelDebug_def
  WriteString_def lines_written_def needsQuoting_def quoteRune_def runeSize_def decodeRune_def
  Value_String_def

subsection \<open>The message field\<close>

text \<open>On a string of bytes below \<^verbatim>\<open>0x80\<close> the runes are the bytes.\<close>

lemma RuneCountInString_ascii:
  "\<forall>c\<in>set s. byte c < 0x80 \<Longrightarrow> RuneCountInString s = length s"
  by (induction s) (simp_all add: runeSize_def)

text \<open>
  For a message of such bytes and a configured width of at most a million the message
  field is what the documentation of \<^verbatim>\<open>MessageWidth\<close> says, and its length is the
  effective width.
\<close>

lemma formattedMessage_ascii:
  assumes ascii: "\<forall>c\<in>set m. byte c < 0x80" and small: "w \<le> 1000000"
  shows "formattedMessage w m =
           (let W = (if w > 0 then w else 40)
            in if int (length m) > W then
                 (if W > 3 then take (nat (W - 3)) m @ ''...'' else take (nat W) m)
               else m @ replicate (nat W - length m) CHR '' '')"
    and "length (formattedMessage w m) = nat (if w > 0 then w else 40)"
proof -
  define W where "W = (if w > 0 then w else 40)"
  have W: "0 < W" "W \<le> 1000000" using small by (auto simp: W_def)
  have take_ascii: "\<forall>c\<in>set (take n m). byte c < 0x80" for n
    using ascii by (meson in_set_takeD)
  have dots: "\<forall>c\<in>set ''...''. byte c < 0x80" by (simp add: byte_def)
  have rc_take: "RuneCountInString (take n m) = min (length m) n" for n
    using RuneCountInString_ascii [OF take_ascii] by simp
  have rc_dots: "RuneCountInString (take n m @ ''...'') = min (length m) n + 3" for n
    using RuneCountInString_ascii [of "take n m @ ''...''"] take_ascii [of n] dots by auto
  have rc_m: "RuneCountInString m = length m"
    using RuneCountInString_ascii [OF ascii] .
  have fm: "formattedMessage w m =
      (if int (length m) > W then
         (if W > 3 then Sprintf_padded W (take (nat (W - 3)) m @ ''...'')
          else Sprintf_padded W (take (nat W) m))
       else Sprintf_padded W m)"
    by (simp add: formattedMessage_def W_def messageWidth_def Let_def)
  show "formattedMessage w m =
           (let W = (if w > 0 then w else 40)
            in if int (length m) > W then
                 (if W > 3 then take (nat (W - 3)) m @ ''...'' else take (nat W) m)
               else m @ replicate (nat W - length m) CHR '' '')"
    unfolding Let_def W_def [symmetric] fm
    using W by (auto simp: Sprintf_padded_def rc_take rc_dots rc_m)
  show "length (formattedMessage w m) = nat (if w > 0 then w else 40)"
    unfolding W_def [symmetric] fm
    using W by (auto simp: Sprintf_padded_def rc_take rc_dots rc_m)
qed

text \<open>
  C1.  In text mode, with effective width \<open>W\<close> (the configured width when positive, 40
  otherwise): a message longer than \<open>W\<close> is cut to its first \<open>W - 3\<close> characters
  followed by \<^verbatim>\<open>...\<close> when \<open>W > 3\<close> and to its first \<open>W\<close> characters otherwise, and a
  message no longer than \<open>W\<close> is padded with spaces to exactly \<open>W\<close> characters.  The
  code measures and cuts the message in bytes and pads it in runes.  The message of
  fourteen letters \<^verbatim>\<open>e-acute\<close> (two bytes each in UTF-8) is 14 characters, shorter than
  the width 20; \<^verbatim>\<open>Handle\<close> finds 28 bytes, cuts after 17 of them, in the middle of the
  ninth letter, appends the dots and pads the 12 runes it now counts with 8 spaces.  And a
  width beyond a million is refused by \<^verbatim>\<open>fmt\<close>, which writes its marker before the
  message instead of padding.
\<close>

theorem formattedMessage_multibyte:
  "length (concat (replicate 14 [CHR 0xC3, CHR 0xA9])) = 28
   \<and> RuneCountInString (concat (replicate 14 [CHR 0xC3, CHR 0xA9])) = 14
   \<and> formattedMessage 20 (concat (replicate 14 [CHR 0xC3, CHR 0xA9]))
       = concat (replicate 8 [CHR 0xC3, CHR 0xA9]) @ [CHR 0xC3] @ ''...'' @ replicate 8 CHR '' ''
   \<and> length (formattedMessage 20 (concat (replicate 14 [CHR 0xC3, CHR 0xA9]))) = 28
   \<and> lines_written (snd (Handle E
         (projr (NewHandler (Some 1) (Some (testOptions\<lparr>MessageWidth := 20\<rparr>))))
         (testRecord (concat (replicate 14 [CHR 0xC3, CHR 0xA9])) []) world0))
       = [''['' @ Time_Format E 0 [] @ ''] INFO  '' @ concat (replicate 8 [CHR 0xC3, CHR 0xA9])
          @ [CHR 0xC3] @ ''...'' @ replicate 8 CHR '' '' @ [CHR 0x0A]]
   \<and> formattedMessage 2000000 ''hi'' = ''%!(BADWIDTH)hi''"
proof -
  have fm: "formattedMessage 20 (concat (replicate 14 [CHR 0xC3, CHR 0xA9]))
       = concat (replicate 8 [CHR 0xC3, CHR 0xA9]) @ [CHR 0xC3] @ ''...'' @ replicate 8 CHR '' ''"
    by (simp add: formattedMessage_def Sprintf_padded_def messageWidth_def runeSize_def
        utf8_first_def byte_def numeral_eq_Suc)
  have rc: "RuneCountInString (concat (replicate 14 [CHR 0xC3, CHR 0xA9])) = 14"
    by (simp add: runeSize_def utf8_first_def byte_def numeral_eq_Suc)
  have bad: "formattedMessage 2000000 ''hi'' = ''%!(BADWIDTH)hi''"
    by (simp add: formattedMessage_def Sprintf_padded_def badWidthString_def)
  have line: "lines_written (snd (Handle E
         (projr (NewHandler (Some 1) (Some (testOptions\<lparr>MessageWidth := 20\<rparr>))))
         (testRecord (concat (replicate 14 [CHR 0xC3, CHR 0xA9])) []) world0))
       = [''['' @ Time_Format E 0 [] @ ''] INFO  ''
          @ formattedMessage 20 (concat (replicate 14 [CHR 0xC3, CHR 0xA9])) @ [CHR 0x0A]]"
    by (simp add: testOptions_def testRecord_def NewHandler_def Handle_def Enabled_def
        slog_Enabled_def appendAttrs_def slice_read_def nil_slice_def world0_def heap0_def
        formatLevel_def LevelInfo_def LevelWarn_def LevelError_def WriteString_def
        lines_written_def Let_def)
  show ?thesis
    unfolding line unfolding fm using rc bad
    by (simp add: length_concat sum_list_replicate)
qed

subsection \<open>Quoting\<close>

lemma ParseFloat_ok_Nil: "\<not> ParseFloat_ok []"
  by (simp add: ParseFloat_ok_def special_def readFloat_def)

text \<open>
  C2.  \<^verbatim>\<open>needsQuoting(s)\<close> is true iff \<open>s\<close> is empty, or \<open>s\<close> does not parse as a
  floating-point number and is one of \<^verbatim>\<open>true\<close>, \<^verbatim>\<open>false\<close>, \<^verbatim>\<open>nil\<close> or contains a
  character at most a space or one of \<^verbatim>\<open>= " ' ` [ ] { }\<close>.  The floating-point test comes
  before the tests of literals and characters: \<^verbatim>\<open>123\<close> and \<^verbatim>\<open>12.5\<close> are not quoted,
  \<^verbatim>\<open>true\<close> and the empty string are, \<^verbatim>\<open>hello\<close> is not, \<^verbatim>\<open>hello world\<close> is.
\<close>

text \<open>
  The loop of \<^verbatim>\<open>needsQuoting\<close> runs over runes.  A rune read from a byte of \<^verbatim>\<open>0x80\<close> or
  more is itself \<^verbatim>\<open>0x80\<close> or more, and so are the bytes the decoder consumes with it; the
  test \<^verbatim>\<open>quoteRune\<close> holds below \<^verbatim>\<open>0x80\<close> only.  So a string has a rune that asks for
  quotes iff it has such a byte.
\<close>

lemma utf8_first_Some:
  assumes "utf8_first b = Some (sz, lo, hi)"
  shows "(sz = 2 \<and> 0xC2 \<le> b \<and> b \<le> 0xDF
          \<or> sz = 3 \<and> 0xE0 \<le> b \<and> b \<le> 0xEF \<and> (b = 0xE0 \<longrightarrow> lo = 0xA0)
          \<or> sz = 4 \<and> 0xF0 \<le> b \<and> b \<le> 0xF4 \<and> (b = 0xF0 \<longrightarrow> lo = 0x90))
         \<and> 0x80 \<le> lo \<and> hi \<le> 0xBF"
  using assms unfolding utf8_first_def
  by (simp split: if_splits)

lemma runeSize_multi:
  assumes "runeSize c cs \<noteq> 1"
  shows "\<exists>sz lo hi. utf8_first (byte c) = Some (sz, lo, hi) \<and> runeSize c cs = sz
           \<and> sz \<le> 1 + length cs \<and> lo \<le> byte (cs ! 0) \<and> byte (cs ! 0) \<le> hi
           \<and> (3 \<le> sz \<longrightarrow> 0x80 \<le> byte (cs ! 1)) \<and> (sz = 4 \<longrightarrow> 0x80 \<le> byte (cs ! 2))"
proof -
  have high: "\<not> byte c < 0x80" using assms by (auto simp: runeSize_def)
  then obtain sz lo hi where f: "utf8_first (byte c) = Some (sz, lo, hi)"
    using assms by (cases "utf8_first (byte c)") (auto simp: runeSize_def)
  from utf8_first_Some [OF f] have sz: "sz = 2 \<or> sz = 3 \<or> sz = 4" by blast
  have rs: "runeSize c cs =
     (if 1 + length cs < sz then 1
      else if byte (cs ! 0) < lo \<or> hi < byte (cs ! 0) then 1
      else if sz = 2 then 2
      else if byte (cs ! 1) < 0x80 \<or> 0xBF < byte (cs ! 1) then 1
      else if sz = 3 then 3
      else if byte (cs ! 2) < 0x80 \<or> 0xBF < byte (cs ! 2) then 1
      else 4)"
    using high f by (simp add: runeSize_def)
  have "runeSize c cs = sz \<and> sz \<le> 1 + length cs \<and> lo \<le> byte (cs ! 0)
           \<and> byte (cs ! 0) \<le> hi
           \<and> (3 \<le> sz \<longrightarrow> 0x80 \<le> byte (cs ! 1)) \<and> (sz = 4 \<longrightarrow> 0x80 \<le> byte (cs ! 2))"
    using assms sz unfolding rs by (auto split: if_splits)
  with f show ?thesis by blast
qed

lemma runeSize_skipped:
  assumes "x \<in> set (take (runeSize c cs - 1) cs)"
  shows "0x80 \<le> byte x"
proof (cases "runeSize c cs = 1")
  case True
  with assms show ?thesis by simp
next
  case False
  from runeSize_multi [OF False] obtain sz lo hi where
    f: "utf8_first (byte c) = Some (sz, lo, hi)" and rs: "runeSize c cs = sz"
    and len: "sz \<le> 1 + length cs" and b0: "lo \<le> byte (cs ! 0)"
    and b1: "3 \<le> sz \<longrightarrow> 0x80 \<le> byte (cs ! 1)" and b2: "sz = 4 \<longrightarrow> 0x80 \<le> byte (cs ! 2)"
    by blast
  from utf8_first_Some [OF f] have sz: "sz = 2 \<or> sz = 3 \<or> sz = 4" and lo: "0x80 \<le> lo"
    by blast+
  from assms rs obtain i where i: "i < sz - 1" "x = cs ! i"
    by (auto simp: in_set_conv_nth)
  with sz have "i = 0 \<or> i = 1 \<and> 3 \<le> sz \<or> i = 2 \<and> sz = 4" by arith
  with i b0 b1 b2 lo show ?thesis by auto
qed

lemma mod_window:
  fixes b :: nat
  assumes "q * n + lo \<le> b" "b < q * n + n"
  shows "lo \<le> b mod n"
proof -
  define r where "r = b - q * n"
  have b: "b = q * n + r" using assms by (simp add: r_def)
  have "r < n" using assms by (simp add: r_def)
  then have "b mod n = r" by (simp add: b)
  moreover have "lo \<le> r" using assms by (simp add: r_def)
  ultimately show ?thesis by simp
qed

lemma mod32_lead: "194 \<le> (b::nat) \<Longrightarrow> b \<le> 223 \<Longrightarrow> 2 \<le> b mod 32"
  using mod_window [of 6 32 2 b] by simp

lemma mod16_lead: "225 \<le> (b::nat) \<Longrightarrow> b \<le> 239 \<Longrightarrow> 1 \<le> b mod 16"
  using mod_window [of 14 16 1 b] by simp

lemma mod8_lead: "241 \<le> (b::nat) \<Longrightarrow> b \<le> 244 \<Longrightarrow> 1 \<le> b mod 8"
  using mod_window [of 30 8 1 b] by simp

lemma mod64_second:
  "144 \<le> (x::nat) \<Longrightarrow> x \<le> 191 \<Longrightarrow> 16 \<le> x mod 64"
  "160 \<le> (x::nat) \<Longrightarrow> x \<le> 191 \<Longrightarrow> 32 \<le> x mod 64"
  using mod_window [of 2 64 16 x] mod_window [of 2 64 32 x] by simp_all

lemma decodeRune_high:
  assumes "\<not> byte c < 0x80"
  shows "0x80 \<le> decodeRune c cs"
proof (cases "runeSize c cs = 1")
  case True
  with assms show ?thesis by (simp add: decodeRune_def)
next
  case False
  from runeSize_multi [OF False] obtain sz lo hi where
    f: "utf8_first (byte c) = Some (sz, lo, hi)" and rs: "runeSize c cs = sz"
    and b0: "lo \<le> byte (cs ! 0)" and b0': "byte (cs ! 0) \<le> hi"
    by blast
  from utf8_first_Some [OF f] have "hi \<le> 0xBF" by blast
  with b0' have c0: "byte (cs ! 0) \<le> 191" by simp
  define m0 where "m0 = byte (cs ! 0) mod 64"
  define m1 where "m1 = byte (cs ! 1) mod 64"
  define m2 where "m2 = byte (cs ! 2) mod 64"
  from utf8_first_Some [OF f] consider
      (two) "sz = 2" "0xC2 \<le> byte c" "byte c \<le> 0xDF"
    | (three) "sz = 3" "0xE0 \<le> byte c" "byte c \<le> 0xEF" "byte c = 0xE0 \<longrightarrow> lo = 0xA0"
    | (four) "sz = 4" "0xF0 \<le> byte c" "byte c \<le> 0xF4" "byte c = 0xF0 \<longrightarrow> lo = 0x90"
    by blast
  then show ?thesis
  proof cases
    case two
    define k where "k = byte c mod 32"
    have d: "decodeRune c cs = k * 64 + m0"
      using assms rs two(1) by (simp add: decodeRune_def k_def m0_def)
    from mod32_lead [OF two(2) two(3)] have "2 \<le> k" by (simp add: k_def)
    then show ?thesis unfolding d by simp
  next
    case three
    define k where "k = byte c mod 16"
    have d: "decodeRune c cs = k * 4096 + m0 * 64 + m1"
      using assms rs three(1) by (simp add: decodeRune_def k_def m0_def m1_def)
    have "1 \<le> k \<or> 32 \<le> m0"
    proof (cases "byte c = 224")
      case True
      with three(4) b0 have "160 \<le> byte (cs ! 0)" by simp
      from mod64_second(2) [OF this c0] show ?thesis by (simp add: m0_def)
    next
      case False
      with three(2) have "225 \<le> byte c" by simp
      from mod16_lead [OF this three(3)] show ?thesis by (simp add: k_def)
    qed
    then show ?thesis unfolding d by auto
  next
    case four
    define k where "k = byte c mod 8"
    have d: "decodeRune c cs = k * 262144 + m0 * 4096 + m1 * 64 + m2"
      using assms rs four(1) by (simp add: decodeRune_def k_def m0_def m1_def m2_def)
    have "1 \<le> k \<or> 16 \<le> m0"
    proof (cases "byte c = 240")
      case True
      with four(4) b0 have "144 \<le> byte (cs ! 0)" by simp
      from mod64_second(1) [OF this c0] show ?thesis by (simp add: m0_def)
    next
      case False
      with four(2) have "241 \<le> byte c" by simp
      from mod8_lead [OF this four(3)] show ?thesis by (simp add: k_def)
    qed
    then show ?thesis unfolding d by auto
  qed
qed

lemma quoteRune_low: "quoteRune r \<Longrightarrow> r < 0x80"
  by (auto simp: quoteRune_def byte_def)

lemma quoteRune_decodeRune: "quoteRune (decodeRune c cs) \<longleftrightarrow> quoteRune (byte c)"
proof (cases "byte c < 0x80")
  case True
  then show ?thesis by (simp add: decodeRune_def)
next
  case False
  with decodeRune_high [OF False, of cs] quoteRune_low [of "decodeRune c cs"]
    quoteRune_low [of "byte c"] show ?thesis by auto
qed

lemma runes_quote_bytes: "list_ex quoteRune (runes s) \<longleftrightarrow> (\<exists>c\<in>set s. quoteRune (byte c))"
proof (induction s rule: runes.induct)
  case 1
  show ?case by simp
next
  case (2 c cs)
  have skipped: "\<not> quoteRune (byte x)" if "x \<in> set (take (runeSize c cs - 1) cs)" for x
    using runeSize_skipped [OF that] quoteRune_low [of "byte x"] by auto
  have "(\<exists>x\<in>set cs. quoteRune (byte x))
        \<longleftrightarrow> (\<exists>x\<in>set (drop (runeSize c cs - 1) cs). quoteRune (byte x))"
    using skipped set_append [of "take (runeSize c cs - 1) cs" "drop (runeSize c cs - 1) cs"]
    by (metis Un_iff append_take_drop_id)
  with 2 show ?case by (simp add: quoteRune_decodeRune)
qed

text \<open>
  C2.  \<^verbatim>\<open>needsQuoting(s)\<close> is true iff \<open>s\<close> is empty, or \<open>s\<close> does not parse as a
  floating-point number and is one of \<^verbatim>\<open>true\<close>, \<^verbatim>\<open>false\<close>, \<^verbatim>\<open>nil\<close> or contains a
  character at most a space or one of \<^verbatim>\<open>= " ' ` [ ] { }\<close> (as a rune, or equally as a
  byte).  The floating-point test comes before the tests of literals and characters:
  \<^verbatim>\<open>123\<close> and \<^verbatim>\<open>12.5\<close> are not quoted, \<^verbatim>\<open>true\<close> and the empty string are, \<^verbatim>\<open>hello\<close> is
  not, \<^verbatim>\<open>hello world\<close> is.
\<close>

theorem needsQuoting_iff:
  "(needsQuoting s \<longleftrightarrow>
      s = [] \<or> (\<not> ParseFloat_ok s \<and>
                 (s = ''true'' \<or> s = ''false'' \<or> s = ''nil'' \<or> (\<exists>r\<in>set (runes s). quoteRune r))))
   \<and> (needsQuoting s \<longleftrightarrow>
      s = [] \<or> (\<not> ParseFloat_ok s \<and>
                 (s = ''true'' \<or> s = ''false'' \<or> s = ''nil'' \<or> (\<exists>c\<in>set s. quoteRune (byte c)))))
   \<and> \<not> needsQuoting ''123'' \<and> \<not> needsQuoting ''12.5'' \<and> needsQuoting ''true''
   \<and> needsQuoting [] \<and> \<not> needsQuoting ''hello'' \<and> needsQuoting ''hello world''"
proof -
  have "needsQuoting s \<longleftrightarrow>
      s = [] \<or> (\<not> ParseFloat_ok s \<and>
                 (s = ''true'' \<or> s = ''false'' \<or> s = ''nil'' \<or> (\<exists>r\<in>set (runes s). quoteRune r)))"
    by (simp add: needsQuoting_def list_ex_iff)
  moreover have "needsQuoting s \<longleftrightarrow>
      s = [] \<or> (\<not> ParseFloat_ok s \<and>
                 (s = ''true'' \<or> s = ''false'' \<or> s = ''nil'' \<or> (\<exists>c\<in>set s. quoteRune (byte c))))"
    by (simp add: needsQuoting_def runes_quote_bytes)
  moreover have "\<not> needsQuoting ''123''"
    by (simp add: needsQuoting_def ParseFloat_eval)
  moreover have "\<not> needsQuoting ''12.5''"
    by (simp add: needsQuoting_def ParseFloat_eval)
  moreover have "needsQuoting ''true''"
    by (simp add: needsQuoting_def ParseFloat_eval)
  moreover have "needsQuoting []"
    by (simp add: needsQuoting_def)
  moreover have "\<not> needsQuoting ''hello''"
    by (simp add: needsQuoting_def ParseFloat_eval quoteRune_def decodeRune_def runeSize_def)
  moreover have "needsQuoting ''hello world''"
    by (simp add: needsQuoting_def ParseFloat_eval quoteRune_def decodeRune_def runeSize_def)
  ultimately show ?thesis by blast
qed

theorem needsQuoting_iff_witness:
  "needsQuoting ''a=b'' \<and> \<not> ParseFloat_ok ''a=b'' \<and> (\<exists>r\<in>set (runes ''a=b''). quoteRune r)
   \<and> (\<exists>c\<in>set ''a=b''. quoteRune (byte c))
   \<and> \<not> needsQuoting ''1e9'' \<and> ParseFloat_ok ''1e9''"
proof -
  have 1: "\<not> ParseFloat_ok ''a=b''" by (simp add: ParseFloat_eval)
  have 2: "\<exists>r\<in>set (runes ''a=b''). quoteRune r"
    by (simp add: quoteRune_def decodeRune_def runeSize_def byte_def)
  have 3: "ParseFloat_ok ''1e9''" by (simp add: ParseFloat_eval)
  have 4: "\<exists>c\<in>set ''a=b''. quoteRune (byte c)" by (simp add: quoteRune_def byte_def)
  show ?thesis
    using needsQuoting_iff [of "''a=b''"] needsQuoting_iff [of "''1e9''"] 1 2 3 4 by simp
qed

text \<open>
  C10.  Every string that \<^verbatim>\<open>strconv.ParseFloat\<close> accepts, the non-decimal forms
  included (\<^verbatim>\<open>NaN\<close>, infinities in any letter case, exponents, hexadecimal floats), is
  not quoted: as the value of a string attribute it is rendered bare, \<^verbatim>\<open>key=s\<close>.
\<close>

theorem ParseFloat_ok_renders_bare:
  "ParseFloat_ok s \<Longrightarrow>
     \<not> needsQuoting s \<and> formatAttr E \<lparr>Key = k, Value = KindString s\<rparr> dc = k @ ''='' @ s"
  using ParseFloat_ok_Nil
  by (auto simp: needsQuoting_def formatAttr_def Equal_zeroAttr_def zeroAttr_def)

theorem ParseFloat_ok_renders_bare_witness:
  "ParseFloat_ok ''NaN'' \<and> \<not> needsQuoting ''NaN''
   \<and> formatAttr sampleEnv \<lparr>Key = ''k'', Value = KindString ''NaN''\<rparr> True = ''k=NaN''
   \<and> ParseFloat_ok ''-iNfInItY'' \<and> \<not> needsQuoting ''-iNfInItY''
   \<and> ParseFloat_ok ''1e9'' \<and> \<not> needsQuoting ''1e9''
   \<and> ParseFloat_ok ''0x1p-2'' \<and> \<not> needsQuoting ''0x1p-2''
   \<and> formatAttr sampleEnv \<lparr>Key = ''k'', Value = KindString ''0x1p-2''\<rparr> True = ''k=0x1p-2''"
proof -
  have 1: "ParseFloat_ok ''NaN''" by (simp add: ParseFloat_eval)
  have 2: "ParseFloat_ok ''-iNfInItY''" by (simp add: ParseFloat_eval)
  have 3: "ParseFloat_ok ''1e9''" by (simp add: ParseFloat_eval)
  have 4: "ParseFloat_ok ''0x1p-2''" by (simp add: ParseFloat_eval)
  show ?thesis
    using ParseFloat_ok_renders_bare [OF 1, of sampleEnv "''k''" True]
      ParseFloat_ok_renders_bare [OF 2, of sampleEnv "''k''" True]
      ParseFloat_ok_renders_bare [OF 3, of sampleEnv "''k''" True]
      ParseFloat_ok_renders_bare [OF 4, of sampleEnv "''k''" True] 1 2 3 4
    by simp
qed

text \<open>
  A signed \<^verbatim>\<open>NaN\<close> is not accepted by \<^verbatim>\<open>strconv.ParseFloat\<close> (\<^verbatim>\<open>special\<close> takes a sign
  before an infinity only); it is not quoted all the same, none of its characters asking
  for quotes.
\<close>

lemma signed_NaN_not_parsed_not_quoted:
  "\<not> ParseFloat_ok ''+NaN'' \<and> \<not> needsQuoting ''+NaN''"
  by (simp add: needsQuoting_def ParseFloat_eval quoteRune_def decodeRune_def runeSize_def)

subsection \<open>The level gate\<close>

lemma Enabled_WithAttrs: "Enabled (fst (WithAttrs h as W)) l = Enabled h l"
  by (simp add: WithAttrs_def Enabled_def slog_Enabled_def slog_WithAttrs_def split: prod.splits)

lemma Enabled_WithGroup: "Enabled (fst (WithGroup h g W)) l = Enabled h l"
  by (simp add: WithGroup_def Enabled_def slog_Enabled_def slog_WithGroup_def split: prod.splits)

text \<open>
  C7.  \<^verbatim>\<open>Enabled(l)\<close> is true iff \<open>l\<close> is at least the configured minimum level, under
  the order debug < info < warn < error; it is true at the minimum itself.  This holds for
  the handler \<^verbatim>\<open>NewHandler\<close> makes, whose embedded handler takes the level of the options,
  for the handlers derived from it, and for the earlier revision, which compares with the
  options directly.  \<^verbatim>\<open>Enabled\<close> is a function of the handler and the level alone: it
  neither reads nor changes the state of the program.
\<close>

theorem Enabled_iff_level_ge_minimum:
  assumes "NewHandler (Some w) opts = Inr h"
  shows "(Enabled h l \<longleftrightarrow> l \<ge> Level (case opts of None \<Rightarrow> DefaultOptions | Some given \<Rightarrow> given))
    \<and> Enabled h (Level (case opts of None \<Rightarrow> DefaultOptions | Some given \<Rightarrow> given))
    \<and> (Enabled (fst (WithAttrs h as W)) l \<longleftrightarrow> Enabled h l)
    \<and> (Enabled (fst (WithGroup h g W)) l \<longleftrightarrow> Enabled h l)
    \<and> (Enabled_old h' l \<longleftrightarrow> l \<ge> Level_old (opts_old h'))
    \<and> LevelDebug < LevelInfo \<and> LevelInfo < LevelWarn \<and> LevelWarn < LevelError"
proof -
  from assms
  have "sh_Level (h_h h) = Level (case opts of None \<Rightarrow> DefaultOptions | Some given \<Rightarrow> given)"
    by (auto simp: NewHandler_def Let_def)
  then show ?thesis
    using Enabled_WithAttrs [of h as W l] Enabled_WithGroup [of h g W l]
    by (simp add: Enabled_def slog_Enabled_def Enabled_old_def
        LevelDebug_def LevelInfo_def LevelWarn_def LevelError_def)
qed

theorem Enabled_iff_level_ge_minimum_witness:
  "NewHandler (Some 1) (Some (testOptions\<lparr>Level := LevelWarn\<rparr>))
     = Inr (testHandler\<lparr>h_h := (h_h testHandler)\<lparr>sh_Level := LevelWarn\<rparr>,
                        h_opts := (h_opts testHandler)\<lparr>Level := LevelWarn\<rparr>\<rparr>)
   \<and> \<not> Enabled (testHandler\<lparr>h_h := (h_h testHandler)\<lparr>sh_Level := LevelWarn\<rparr>,
                        h_opts := (h_opts testHandler)\<lparr>Level := LevelWarn\<rparr>\<rparr>) LevelInfo
   \<and> Enabled (testHandler\<lparr>h_h := (h_h testHandler)\<lparr>sh_Level := LevelWarn\<rparr>,
                        h_opts := (h_opts testHandler)\<lparr>Level := LevelWarn\<rparr>\<rparr>) LevelWarn
   \<and> Enabled (testHandler\<lparr>h_h := (h_h testHandler)\<lparr>sh_Level := LevelWarn\<rparr>,
                        h_opts := (h_opts testHandler)\<lparr>Level := LevelWarn\<rparr>\<rparr>) LevelError"
proof -
  have 1: "NewHandler (Some 1) (Some (testOptions\<lparr>Level := LevelWarn\<rparr>))
     = Inr (testHandler\<lparr>h_h := (h_h testHandler)\<lparr>sh_Level := LevelWarn\<rparr>,
                        h_opts := (h_opts testHandler)\<lparr>Level := LevelWarn\<rparr>\<rparr>)"
    by (simp add: NewHandler_def testHandler_def testOptions_def)
  show ?thesis
    using Enabled_iff_level_ge_minimum [OF 1, of LevelInfo]
      Enabled_iff_level_ge_minimum [OF 1, of LevelWarn]
      Enabled_iff_level_ge_minimum [OF 1, of LevelError] 1
    by (simp add: testOptions_def LevelInfo_def LevelWarn_def LevelError_def)
qed

text \<open>
  C6.  A record whose level is not enabled never reaches the sink: \<^verbatim>\<open>Handle\<close> returns
  nil before any formatting, and the state of the program (the sink, the backing arrays)
  is what it was.
\<close>

theorem Handle_disabled_writes_nothing:
  "\<not> Enabled h (rec_Level r) \<Longrightarrow> Handle E h r W = (Inr None, W)"
  by (simp add: Handle_def)

theorem Handle_disabled_writes_nothing_witness:
  "\<not> Enabled testHandler (rec_Level ((testRecord ''m'' [])\<lparr>rec_Level := LevelDebug\<rparr>))
   \<and> Handle sampleEnv testHandler ((testRecord ''m'' [])\<lparr>rec_Level := LevelDebug\<rparr>) world0
       = (Inr None, world0)
   \<and> lines_written (snd (Handle sampleEnv testHandler (testRecord ''m'' []) world0)) \<noteq> []"
proof -
  have 1: "\<not> Enabled testHandler (rec_Level ((testRecord ''m'' [])\<lparr>rec_Level := LevelDebug\<rparr>))"
    by (simp add: handler_eval)
  have 2: "lines_written (snd (Handle sampleEnv testHandler (testRecord ''m'' []) world0)) \<noteq> []"
    by (simp add: handler_eval Let_def)
  show ?thesis
    using Handle_disabled_writes_nothing [OF 1, of sampleEnv world0] 1 2 by simp
qed

subsection \<open>Construction\<close>

text \<open>
  C9.  \<^verbatim>\<open>NewHandler\<close> with a nil writer panics, whatever the options, and returns no
  handler; with a writer it returns a handler that writes to it and has no attributes and
  no groups yet.  The same holds for the constructor of the earlier revision.
\<close>

theorem NewHandler_nil_writer_panics:
  "NewHandler None opts = Inl (Panic ''humanlog: nil writer'')
   \<and> (\<exists>h. NewHandler (Some w) opts = Inr h \<and> Writer (h_opts h) = Some w
            \<and> h_attrs h = nil_slice \<and> h_groups h = nil_slice)
   \<and> NewHandler_old None opts' = Inl (Panic ''humanlog: nil writer'')
   \<and> (\<exists>h. NewHandler_old (Some w) opts' = Inr h \<and> Writer_old (opts_old h) = Some w
            \<and> attrs_old h = [] \<and> groups_old h = [])"
  by (simp add: NewHandler_def NewHandler_old_def Let_def)

theorem NewHandler_nil_writer_panics_witness:
  "NewHandler None (Some DefaultOptions) = Inl (Panic ''humanlog: nil writer'')
   \<and> (\<exists>h. NewHandler (Some 1) (Some DefaultOptions) = Inr h \<and> Writer (h_opts h) = Some 1
            \<and> h_attrs h = nil_slice \<and> h_groups h = nil_slice)
   \<and> NewHandler_old None None = Inl (Panic ''humanlog: nil writer'')
   \<and> (\<exists>h. NewHandler_old (Some 1) None = Inr h \<and> Writer_old (opts_old h) = Some 1
            \<and> attrs_old h = [] \<and> groups_old h = [])"
  using NewHandler_nil_writer_panics [of "Some DefaultOptions" 1 None] by simp

subsection \<open>Derived handlers\<close>

text \<open>
  \<^verbatim>\<open>append\<close> on a well-formed slice: the result reads as the old elements followed by the
  new ones, the slice appended to still reads as before, well-formed slices stay well
  formed, and a slice with another backing array is not touched.  Nothing is said of
  another slice with the same backing array.
\<close>

lemma grow125_ge: "newLen \<le> grow125 newcap newLen"
proof (induction newcap newLen rule: grow125.induct)
  case (1 newcap newLen)
  show ?case
  proof (cases "newLen \<le> newcap + (newcap + 3 * 256) div 4")
    case True
    then show ?thesis by (subst grow125.simps) (simp add: Let_def)
  next
    case False
    with "1.IH" [OF refl False] show ?thesis
      by (subst grow125.simps) (simp add: Let_def)
  qed
qed

lemma nextslicecap_ge: "newLen \<le> nextslicecap newLen oldCap"
  by (simp add: nextslicecap_def grow125_ge)

lemma append_slice_result:
  assumes ok: "slice_ok H s" and ap: "append_slice z H s xs = (s', H')"
  shows "slice_read H' s' = slice_read H s @ xs"
    and "slice_read H' s = slice_read H s"
    and "slice_ok H' s'"
    and "slice_ok H t \<Longrightarrow> slice_ok H' t"
    and "sl_array t \<noteq> sl_array s \<Longrightarrow> slice_ok H t \<Longrightarrow> slice_read H' t = slice_read H t"
proof -
  let ?n = "sl_len s + length xs"
  let ?old = "cells H (sl_array s)"
  from ok have len: "sl_len s \<le> sl_cap s" "sl_cap s \<le> length ?old" "sl_array s < nextAddr H"
    by (simp_all add: slice_ok_def)
  show "slice_read H' s' = slice_read H s @ xs"
    using ap len nextslicecap_ge [of ?n "sl_cap s"]
    by (auto simp: append_slice_def Let_def slice_read_def split: if_splits)
  show "slice_read H' s = slice_read H s"
    using ap len by (auto simp: append_slice_def Let_def slice_read_def split: if_splits)
  show "slice_ok H' s'"
    using ap len nextslicecap_ge [of ?n "sl_cap s"]
    by (auto simp: append_slice_def Let_def slice_ok_def slice_read_def split: if_splits)
  show "slice_ok H t \<Longrightarrow> slice_ok H' t"
    using ap len by (auto simp: append_slice_def Let_def slice_ok_def split: if_splits)
  show "sl_array t \<noteq> sl_array s \<Longrightarrow> slice_ok H t \<Longrightarrow> slice_read H' t = slice_read H t"
    using ap by (auto simp: append_slice_def Let_def slice_ok_def slice_read_def split: if_splits)
qed

text \<open>
  So in text mode \<^verbatim>\<open>WithAttrs\<close> gives a handler that reads the attributes of its parent
  followed by the new ones, as they were passed, and the parent reads what it read before.
\<close>

lemma WithAttrs_text:
  assumes tm: "\<not> UseJSON (h_opts h)" and ok: "slice_ok (attrHeap W) (h_attrs h)"
    and wa: "WithAttrs h as W = (h2, W2)"
  shows "slice_read (attrHeap W2) (h_attrs h2) = slice_read (attrHeap W) (h_attrs h) @ as"
    and "slice_read (attrHeap W2) (h_attrs h) = slice_read (attrHeap W) (h_attrs h)"
    and "slice_ok (attrHeap W2) (h_attrs h2)"
    and "h_groups h2 = h_groups h \<and> h_opts h2 = h_opts h \<and> h_h h2 = h_h h"
    and "strHeap W2 = strHeap W \<and> written W2 = written W"
proof -
  obtain s H where ap: "append_slice zeroAttr (attrHeap W) (h_attrs h) as = (s, H)"
    by (cases "append_slice zeroAttr (attrHeap W) (h_attrs h) as")
  with tm wa have h2: "h2 = h\<lparr>h_attrs := s\<rparr>" and W2: "W2 = W\<lparr>attrHeap := H\<rparr>"
    by (simp_all add: WithAttrs_def)
  show "slice_read (attrHeap W2) (h_attrs h2) = slice_read (attrHeap W) (h_attrs h) @ as"
    using append_slice_result(1) [OF ok ap] by (simp add: h2 W2)
  show "slice_read (attrHeap W2) (h_attrs h) = slice_read (attrHeap W) (h_attrs h)"
    using append_slice_result(2) [OF ok ap] by (simp add: W2)
  show "slice_ok (attrHeap W2) (h_attrs h2)"
    using append_slice_result(3) [OF ok ap] by (simp add: h2 W2)
  show "h_groups h2 = h_groups h \<and> h_opts h2 = h_opts h \<and> h_h h2 = h_h h"
    by (simp add: h2)
  show "strHeap W2 = strHeap W \<and> written W2 = written W"
    by (simp add: W2)
qed

text \<open>
  The earlier revision: an empty group name returns the handler itself; \<^verbatim>\<open>WithAttrs\<close>
  stores the new attributes with the group path of that moment in front of their keys, and
  a group entered later leaves the stored attributes alone.
\<close>

lemma WithGroup_old_empty: "WithGroup_old h [] = h"
  by (simp add: WithGroup_old_def)

lemma WithGroup_old_keeps_attrs: "attrs_old (WithGroup_old h name) = attrs_old h"
  by (simp add: WithGroup_old_def)

lemma WithAttrs_old_binds:
  "attrs_old (WithAttrs_old h as) =
     attrs_old h @
     (if groups_old h = [] then as
      else map (\<lambda>a. \<lparr>Key = Join (groups_old h) ''.'' @ ''.'' @ Key a, Value = Value a\<rparr>) as)"
  by (simp add: WithAttrs_old_def Let_def)

text \<open>
  C3.  \<^verbatim>\<open>WithAttrs\<close> binds each new attribute with the group path \<open>G\<close> of that moment in
  front of its key, once; a group entered after the bind does not change the prefix of the
  attributes already bound.  In \<^verbatim>\<open>handler.go\<close> \<^verbatim>\<open>WithAttrs\<close> stores the attributes as
  they come and \<^verbatim>\<open>Handle\<close> puts the whole group path of the logging handler in front of
  every bound attribute: the attribute \<^verbatim>\<open>a=1\<close> bound before the group \<^verbatim>\<open>g\<close> was entered is
  written as \<^verbatim>\<open>g.a=1\<close>.  The case of the tests, \<^verbatim>\<open>WithGroup("request")\<close> and then
  \<^verbatim>\<open>WithAttrs\<close> with \<^verbatim>\<open>method=GET\<close>, does give \<^verbatim>\<open>request.method=GET\<close>.
\<close>

theorem WithAttrs_then_WithGroup_reprefixes:
  "(let (h1, W1) = WithAttrs testHandler [slog_String ''a'' ''1''] world0;
        (h2, W2) = WithGroup h1 ''g'' W1
    in lines_written (snd (Handle E h2 (testRecord ''m'' []) W2)))
     = [''['' @ Time_Format E 0 [] @ ''] INFO  m'' @ replicate 39 CHR '' '' @ '' g.a=1''
        @ [CHR 0x0A]]
   \<and> (let (h1, W1) = WithGroup testHandler ''request'' world0;
           (h2, W2) = WithAttrs h1 [slog_String ''method'' ''GET''] W1
       in lines_written (snd (Handle E h2 (testRecord ''m'' []) W2)))
     = [''['' @ Time_Format E 0 [] @ ''] INFO  m'' @ replicate 39 CHR '' ''
        @ '' request.method=GET'' @ [CHR 0x0A]]"
  by (simp add: handler_eval ParseFloat_eval Let_def)

text \<open>
  C4.  \<^verbatim>\<open>WithGroup("")\<close> is the handler it was called on, to the eye of every later bind
  and record: after \<^verbatim>\<open>WithGroup("request")\<close> and \<^verbatim>\<open>WithGroup("")\<close> a key \<^verbatim>\<open>k\<close> is still
  written \<^verbatim>\<open>request.k\<close>.  In \<^verbatim>\<open>handler.go\<close> the empty name is appended to the groups
  like any other, the joined path becomes \<^verbatim>\<open>request.\<close>, and the key is written
  \<^verbatim>\<open>request..k\<close>.
\<close>

theorem WithGroup_empty_changes_prefix:
  "(let (h1, W1) = WithGroup testHandler ''request'' world0;
        (h2, W2) = WithGroup h1 [] W1
    in (lines_written (snd (Handle E h1 (testRecord ''m'' [slog_String ''k'' ''v'']) W2)),
        lines_written (snd (Handle E h2 (testRecord ''m'' [slog_String ''k'' ''v'']) W2))))
     = ([''['' @ Time_Format E 0 [] @ ''] INFO  m'' @ replicate 39 CHR '' '' @ '' request.k=v''
         @ [CHR 0x0A]],
        [''['' @ Time_Format E 0 [] @ ''] INFO  m'' @ replicate 39 CHR '' '' @ '' request..k=v''
         @ [CHR 0x0A]])"
  by (simp add: handler_eval ParseFloat_eval Let_def)

text \<open>
  C5.  Deriving a handler with \<^verbatim>\<open>WithAttrs\<close> changes neither the parent nor what any other
  handler derived from it writes.  In \<^verbatim>\<open>handler.go\<close> the derived handler appends to a
  copy of the slice header of its parent.  After three attributes bound one at a time the
  backing array has four cells and the slice three elements; two handlers derived from
  that one each write their attribute into the fourth cell, and the first of them then
  logs the attribute of the second (\<^verbatim>\<open>e=5\<close>) in place of its own (\<^verbatim>\<open>d=4\<close>).  (An
  attribute takes 40 bytes; the capacities 1, 2 and 4 asked for on the way are what the
  size classes of the allocator give as well.)
\<close>

theorem WithAttrs_siblings_share_array:
  "(let (h1, W1) = WithAttrs testHandler [slog_String ''a'' ''1''] world0;
        (h2, W2) = WithAttrs h1 [slog_String ''b'' ''2''] W1;
        (base, W3) = WithAttrs h2 [slog_String ''c'' ''3''] W2;
        (x, W4) = WithAttrs base [slog_String ''d'' ''4''] W3;
        (y, W5) = WithAttrs base [slog_String ''e'' ''5''] W4
    in (slice_read (attrHeap W4) (h_attrs x),
        slice_read (attrHeap W5) (h_attrs x),
        lines_written (snd (Handle E x (testRecord ''m'' []) W4)),
        lines_written (snd (Handle E x (testRecord ''m'' []) W5))))
     = ([slog_String ''a'' ''1'', slog_String ''b'' ''2'', slog_String ''c'' ''3'',
         slog_String ''d'' ''4''],
        [slog_String ''a'' ''1'', slog_String ''b'' ''2'', slog_String ''c'' ''3'',
         slog_String ''e'' ''5''],
        [''['' @ Time_Format E 0 [] @ ''] INFO  m'' @ replicate 39 CHR '' ''
         @ '' a=1 b=2 c=3 d=4'' @ [CHR 0x0A]],
        [''['' @ Time_Format E 0 [] @ ''] INFO  m'' @ replicate 39 CHR '' ''
         @ '' a=1 b=2 c=3 e=5'' @ [CHR 0x0A]])"
  by (simp add: handler_eval ParseFloat_eval Let_def)

subsection \<open>Empty attributes\<close>

text \<open>
  C8.  \<^verbatim>\<open>formatAttr\<close> gives the empty string for the zero attribute, and empty results
  are left out of the line, so that a zero attribute in a record changes nothing.
  \<^verbatim>\<open>formatAttr\<close> does give the empty string, but \<^verbatim>\<open>appendAttrs\<close> keeps it in the list
  that \<^verbatim>\<open>Handle\<close> joins: a record with the zero attribute alone ends in a space that the
  same record without attributes does not have, between two attributes the zero attribute
  leaves two spaces, and under a group its key is no longer empty and it is written
  \<^verbatim>\<open>g.=<nil>\<close>.
\<close>

theorem zero_attr_adds_separator:
  "formatAttr E zeroAttr dc = []
   \<and> lines_written (snd (Handle E testHandler (testRecord ''m'' []) world0))
       = [''['' @ Time_Format E 0 [] @ ''] INFO  m'' @ replicate 39 CHR '' '' @ [CHR 0x0A]]
   \<and> lines_written (snd (Handle E testHandler (testRecord ''m'' [zeroAttr]) world0))
       = [''['' @ Time_Format E 0 [] @ ''] INFO  m'' @ replicate 39 CHR '' '' @ '' ''
          @ [CHR 0x0A]]
   \<and> lines_written (snd (Handle E testHandler
         (testRecord ''m'' [slog_String ''a'' ''1'', zeroAttr, slog_String ''b'' ''2'']) world0))
       = [''['' @ Time_Format E 0 [] @ ''] INFO  m'' @ replicate 39 CHR '' '' @ '' a=1  b=2''
          @ [CHR 0x0A]]
   \<and> (let (h1, W1) = WithGroup testHandler ''g'' world0
       in lines_written (snd (Handle E h1 (testRecord ''m'' [zeroAttr]) W1)))
       = [''['' @ Time_Format E 0 [] @ ''] INFO  m'' @ replicate 39 CHR '' '' @ '' g.=<nil>''
          @ [CHR 0x0A]]"
  by (simp add: handler_eval ParseFloat_eval Let_def)

end
